theory Spec2Isabelle
  imports Main
begin

section \<open>The configuration object of astro.config.mjs\<close>

text \<open>
  The repository holds no function of its own: its code is the object literal that
  \<^verbatim>\<open>astro.config.mjs\<close> passes to the documentation theme, and the content files
  under \<^verbatim>\<open>src/content/docs/\<close>. The literal is embedded as a value of the
  JavaScript literals it is built from: strings, arrays (ordered) and objects (a
  sequence of key/value pairs in the order the source writes them).
\<close>

datatype jsval =
    JString string
  | JArray "jsval list"
  | JObject "(string \<times> jsval) list"

text \<open>\<^verbatim>\<open>astro.config.mjs\<close>, lines 17 to 50: the value of the key \<^verbatim>\<open>sidebar\<close>.\<close>

definition sidebar :: jsval where
  "sidebar = JArray [
     JObject [(''label'', JString ''Getting Started''),
       (''items'', JArray [
          JObject [(''label'', JString ''Get Started''), (''slug'', JString ''guides/getting-started'')],
          JObject [(''label'', JString ''Ship in 5 Minutes''), (''slug'', JString ''guides/ship-in-5-minutes'')]])],
     JObject [(''label'', JString ''Core Features''),
       (''items'', JArray [
          JObject [(''label'', JString ''Authentication''), (''slug'', JString ''guides/authentication'')],
          JObject [(''label'', JString ''Database''), (''slug'', JString ''guides/database'')],
          JObject [(''label'', JString ''Payments''), (''slug'', JString ''guides/payments'')],
          JObject [(''label'', JString ''Email Integration''), (''slug'', JString ''guides/emails'')],
          JObject [(''label'', JString ''SEO & Marketing''), (''slug'', JString ''guides/seo'')],
          JObject [(''label'', JString ''Deployment''), (''slug'', JString ''guides/deployment'')]])],
     JObject [(''label'', JString ''Support & Quality''),
       (''items'', JArray [
          JObject [(''label'', JString ''Customer Support''), (''slug'', JString ''guides/customer-support'')],
          JObject [(''label'', JString ''Error Handling''), (''slug'', JString ''guides/error-handling'')]])],
     JObject [(''label'', JString ''Reference''),
       (''items'', JArray [
          JObject [(''label'', JString ''Components''), (''slug'', JString ''reference/components'')],
          JObject [(''label'', JString ''API Reference''), (''slug'', JString ''reference/api'')]])]]"

text \<open>\<^verbatim>\<open>astro.config.mjs\<close>, lines 9 to 51: the whole argument of \<^verbatim>\<open>starlight(...)\<close>.\<close>

definition starlight_options :: jsval where
  "starlight_options = JObject [
     (''title'', JString ''LaunchKit Docs''),
     (''social'', JArray [
        JObject [(''icon'', JString ''github''),
                 (''label'', JString ''GitHub''),
                 (''href'', JString ''https://github.com/your-org/launchkit'')]]),
     (''sidebar'', sidebar)]"

subsection \<open>Reading a literal\<close>

text \<open>Property access \<^verbatim>\<open>v.k\<close>: absent on anything but an object that has the key.\<close>

fun field :: "string \<Rightarrow> jsval \<Rightarrow> jsval option" where
  "field k (JObject fs) = map_of fs k"
| "field k _ = None"

fun keys :: "jsval \<Rightarrow> string list" where
  "keys (JObject fs) = map fst fs"
| "keys _ = []"

fun elements :: "jsval \<Rightarrow> jsval list" where
  "elements (JArray vs) = vs"
| "elements _ = []"

fun is_string :: "jsval \<Rightarrow> bool" where
  "is_string (JString s) = True"
| "is_string _ = False"

fun is_array :: "jsval \<Rightarrow> bool" where
  "is_array (JArray vs) = True"
| "is_array _ = False"

definition has_string :: "string \<Rightarrow> jsval \<Rightarrow> bool" where
  "has_string k v = (case field k v of Some x \<Rightarrow> is_string x | None \<Rightarrow> False)"

definition has_array :: "string \<Rightarrow> jsval \<Rightarrow> bool" where
  "has_array k v = (case field k v of Some x \<Rightarrow> is_array x | None \<Rightarrow> False)"

definition string_field :: "string \<Rightarrow> jsval \<Rightarrow> string option" where
  "string_field k v = (case field k v of Some (JString s) \<Rightarrow> Some s | _ \<Rightarrow> None)"

subsection \<open>The two shapes of a navigation entry\<close>

text \<open>
  A group is written \<^verbatim>\<open>{ label: '...', items: [...] }\<close>, a leaf
  \<^verbatim>\<open>{ label: '...', slug: '...' }\<close>: these keys and no other.
\<close>

definition is_group :: "jsval \<Rightarrow> bool" where
  "is_group v = (keys v = [''label'', ''items''] \<and> has_string ''label'' v \<and> has_array ''items'' v)"

definition is_leaf :: "jsval \<Rightarrow> bool" where
  "is_leaf v = (keys v = [''label'', ''slug''] \<and> has_string ''label'' v \<and> has_string ''slug'' v)"

text \<open>The children of an entry: the elements of its \<^verbatim>\<open>items\<close>, in order.\<close>

definition children :: "jsval \<Rightarrow> jsval list" where
  "children v = (case field ''items'' v of Some x \<Rightarrow> elements x | None \<Rightarrow> [])"

text \<open>
  Every object that occurs in a literal, at any depth, parents before children and
  siblings in source order. For the sidebar these are the nodes of the navigation tree.
\<close>

fun nodes :: "jsval \<Rightarrow> jsval list" where
  "nodes (JString s) = []"
| "nodes (JArray vs) = concat (map nodes vs)"
| "nodes (JObject fs) = JObject fs # concat (map (\<lambda>kv. nodes (snd kv)) fs)"

definition leaf_slugs :: "jsval \<Rightarrow> string list" where
  "leaf_slugs v = List.map_filter (string_field ''slug'') (nodes v)"

definition leaf_labels :: "jsval \<Rightarrow> string list" where
  "leaf_labels v =
     List.map_filter (\<lambda>n. if is_leaf n then string_field ''label'' n else None) (nodes v)"

definition group_labels :: "jsval \<Rightarrow> string list" where
  "group_labels v =
     List.map_filter (\<lambda>n. if is_group n then string_field ''label'' n else None) (nodes v)"

subsection \<open>The navigation tree as nested sequences of records\<close>

text \<open>
  The target structure of the spec's design note: an entry is a record that is either a
  group (a label and the ordered sequence of its entries) or a link (a label and a slug).
\<close>

datatype nav_entry =
    Group string "nav_entry list"
  | Link string string

text \<open>All results or none: the first element that fails makes the whole sequence fail.\<close>

fun sequence :: "'a option list \<Rightarrow> 'a list option" where
  "sequence [] = Some []"
| "sequence (None # xs) = None"
| "sequence (Some x # xs) = (case sequence xs of None \<Rightarrow> None | Some ys \<Rightarrow> Some (x # ys))"

text \<open>
  Encoding reads a literal of one of the two shapes and refuses every other literal;
  decoding writes the literal back.
\<close>

fun encode_entry :: "jsval \<Rightarrow> nav_entry option" where
  "encode_entry (JObject [(k1, JString l), (k2, JArray cs)]) =
     (if k1 = ''label'' \<and> k2 = ''items''
      then (case sequence (map encode_entry cs) of
              None \<Rightarrow> None
            | Some ts \<Rightarrow> Some (Group l ts))
      else None)"
| "encode_entry (JObject [(k1, JString l), (k2, JString s)]) =
     (if k1 = ''label'' \<and> k2 = ''slug'' then Some (Link l s) else None)"
| "encode_entry _ = None"

fun encode_sidebar :: "jsval \<Rightarrow> nav_entry list option" where
  "encode_sidebar (JArray vs) = sequence (map encode_entry vs)"
| "encode_sidebar _ = None"

fun decode_entry :: "nav_entry \<Rightarrow> jsval" where
  "decode_entry (Group l ts) =
     JObject [(''label'', JString l), (''items'', JArray (map decode_entry ts))]"
| "decode_entry (Link l s) = JObject [(''label'', JString l), (''slug'', JString s)]"

definition decode_sidebar :: "nav_entry list \<Rightarrow> jsval" where
  "decode_sidebar ts = JArray (map decode_entry ts)"

section \<open>The content files\<close>

text \<open>
  A content file is a Markdown or MDX text that opens with a YAML front-matter block
  between two \<^verbatim>\<open>---\<close> lines. The embedding keeps the file's path from the
  repository root and the key/value pairs of the block, in source order.
\<close>

record content_doc =
  path :: string
  front_matter :: "(string \<times> string) list"

text \<open>The directory the theme reads content from (\<^verbatim>\<open>README.md\<close>, line 107).\<close>

definition content_root :: string where
  "content_root = ''src/content/docs/''"

text \<open>The eight content files whose path the sources record, with lines 1 to 4 of each.\<close>

definition named_docs :: "content_doc list" where
  "named_docs = [
     \<lparr>path = ''src/content/docs/guides/getting-started.mdx'',
      front_matter = [(''title'', ''Get Started''),
        (''description'', ''Get your LaunchKit project up and running in minutes.'')]\<rparr>,
     \<lparr>path = ''src/content/docs/guides/ship-in-5-minutes.md'',
      front_matter = [(''title'', ''Ship in 5 Minutes''),
        (''description'', ''Get your startup in front of customers in 5 minutes.'')]\<rparr>,
     \<lparr>path = ''src/content/docs/guides/authentication.md'',
      front_matter = [(''title'', ''User Authentication''),
        (''description'', ''Set up user authentication with Supabase Auth.'')]\<rparr>,
     \<lparr>path = ''src/content/docs/guides/emails.mdx'',
      front_matter = [(''title'', ''Email Integration''),
        (''description'', ''Send transactional emails and manage email marketing with LaunchKit using Resend'')]\<rparr>,
     \<lparr>path = ''src/content/docs/guides/deployment.mdx'',
      front_matter = [(''title'', ''Deployment''),
        (''description'', ''Deploy your LaunchKit app to production.'')]\<rparr>,
     \<lparr>path = ''src/content/docs/guides/customer-support.md'',
      front_matter = [(''title'', ''Customer Support''),
        (''description'', ''Set up customer support with chat integration and help systems'')]\<rparr>,
     \<lparr>path = ''src/content/docs/guides/dark-mode.md'',
      front_matter = [(''title'', ''Dark Mode Implementation''),
        (''description'', ''Complete guide to implementing dark mode with next-themes and shadcn/ui components.'')]\<rparr>,
     \<lparr>path = ''src/content/docs/reference/api.md'',
      front_matter = [(''title'', ''API Reference''),
        (''description'', ''API endpoints and utilities for LaunchKit.'')]\<rparr>]"

text \<open>
  \<^verbatim>\<open>README.md\<close>, lines 23 to 38: the drawing of the content tree, as paths in
  the order of the drawing. It is documentation, not a directory listing: it names files
  that the sources have no file for, and it leaves out the dark mode guide.
\<close>

definition readme_structure :: "string list" where
  "readme_structure = [
     ''src/content/docs/guides/getting-started.mdx'',
     ''src/content/docs/guides/ship-in-5-minutes.md'',
     ''src/content/docs/guides/authentication.md'',
     ''src/content/docs/guides/database.mdx'',
     ''src/content/docs/guides/payments.md'',
     ''src/content/docs/guides/emails.mdx'',
     ''src/content/docs/guides/deployment.mdx'',
     ''src/content/docs/guides/error-handling.md'',
     ''src/content/docs/guides/customer-support.md'',
     ''src/content/docs/guides/seo.md'',
     ''src/content/docs/reference/api.md'',
     ''src/content/docs/reference/components.md'']"

text \<open>
  Six more texts open with a front-matter block, but the sources give them no file name:
  three files whose name is not recorded (Database, Payments, and a second version of the
  authentication guide), and three texts that follow another file's text: SEO & Marketing
  (\<^verbatim>\<open>getting-started.mdx\<close>, from line 294), Error Handling
  (\<^verbatim>\<open>customer-support.md\<close>, from line 378) and Components (\<^verbatim>\<open>README.md\<close>,
  from line 129). Only their front-matter is embedded: nothing in the sources says where
  in the repository they lie.
\<close>

definition unnamed_front_matter :: "(string \<times> string) list list" where
  "unnamed_front_matter = [
     [(''title'', ''Database''),
      (''description'', ''Set up and manage your PostgreSQL database with Supabase.'')],
     [(''title'', ''Payments''),
      (''description'', ''Set up Stripe payments and subscriptions in LaunchKit.'')],
     [(''title'', ''User Authentication''),
      (''description'', ''Set up user authentication with Supabase Auth.'')],
     [(''title'', ''SEO & Marketing''),
      (''description'', ''Optimize your LaunchKit app for search engines and content marketing'')],
     [(''title'', ''Error Handling''),
      (''description'', ''Graceful error handling and user experience in LaunchKit'')],
     [(''title'', ''Components''),
      (''description'', ''Pre-built components for your LaunchKit application.'')]]"

text \<open>A key of a front-matter block that is present with a non-empty value.\<close>

definition nonempty_value :: "string \<Rightarrow> (string \<times> string) list \<Rightarrow> bool" where
  "nonempty_value k fm = (case map_of fm k of Some v \<Rightarrow> v \<noteq> [] | None \<Rightarrow> False)"


subsection \<open>Routes\<close>

fun strip_prefix :: "string \<Rightarrow> string \<Rightarrow> string option" where
  "strip_prefix [] ys = Some ys"
| "strip_prefix (x # xs) [] = None"
| "strip_prefix (x # xs) (y # ys) = (if x = y then strip_prefix xs ys else None)"

definition strip_suffix :: "string \<Rightarrow> string \<Rightarrow> string option" where
  "strip_suffix suf s = map_option rev (strip_prefix (rev suf) (rev s))"

text \<open>The two extensions of a content file; \<^verbatim>\<open>.mdx\<close> is tried first.\<close>

definition strip_extension :: "string \<Rightarrow> string option" where
  "strip_extension p =
     (case strip_suffix ''.mdx'' p of
        Some r \<Rightarrow> Some r
      | None \<Rightarrow> strip_suffix ''.md'' p)"

text \<open>
  Modelled from the spec: the routing of content files, which the external documentation
  theme does and the repository has no code for. The spec's section 6 says each content
  file is "mapped to a route by file path", and \<^verbatim>\<open>README.md\<close>, line 107, that the
  theme "looks for .md or .mdx files in the src/content/docs/ directory" and that "each
  file is exposed as a route based on its file name": the route of a file is its path
  below the content directory without the extension, and a path elsewhere or with
  another extension has no route.
\<close>

definition route :: "string \<Rightarrow> string option" where
  "route p =
     (case strip_prefix content_root p of
        None \<Rightarrow> None
      | Some rel \<Rightarrow> strip_extension rel)"

section \<open>Properties of the navigation tree\<close>

subsection \<open>What the sidebar holds\<close>

lemma sidebar_of_options: "field ''sidebar'' starlight_options = Some sidebar"
  by (simp add: starlight_options_def)

lemma nodes_sidebar_length: "length (nodes sidebar) = 16"
  by (simp add: sidebar_def)

lemma leaf_slugs_sidebar:
  "leaf_slugs sidebar =
     [''guides/getting-started'', ''guides/ship-in-5-minutes'', ''guides/authentication'',
      ''guides/database'', ''guides/payments'', ''guides/emails'', ''guides/seo'',
      ''guides/deployment'', ''guides/customer-support'', ''guides/error-handling'',
      ''reference/components'', ''reference/api'']"
  by (simp add: leaf_slugs_def sidebar_def string_field_def)

lemma leaf_labels_sidebar:
  "leaf_labels sidebar =
     [''Get Started'', ''Ship in 5 Minutes'', ''Authentication'', ''Database'', ''Payments'',
      ''Email Integration'', ''SEO & Marketing'', ''Deployment'', ''Customer Support'',
      ''Error Handling'', ''Components'', ''API Reference'']"
  by (simp add: leaf_labels_def sidebar_def string_field_def is_leaf_def has_string_def)

lemma group_labels_sidebar:
  "group_labels sidebar =
     [''Getting Started'', ''Core Features'', ''Support & Quality'', ''Reference'']"
  by (simp add: group_labels_def sidebar_def string_field_def is_group_def has_string_def
      has_array_def)

lemma group_not_leaf: "\<not> (is_group v \<and> is_leaf v)"
  by (simp add: is_group_def is_leaf_def)

subsection \<open>Shapes\<close>

text \<open>
  C3. The sidebar is an array, and every node of it has exactly one of the two shapes:
  it is a group (the keys \<^verbatim>\<open>label\<close> and \<^verbatim>\<open>items\<close>, a string and an array,
  that is an ordered sequence of child entries) or a leaf (the keys \<^verbatim>\<open>label\<close> and
  \<^verbatim>\<open>slug\<close>, both strings), never both, and no node has both an \<^verbatim>\<open>items\<close> and a
  \<^verbatim>\<open>slug\<close> key.
\<close>

theorem sidebar_node_shapes:
  "is_array sidebar \<and>
   (\<forall>n \<in> set (nodes sidebar).
      (is_group n \<or> is_leaf n) \<and> \<not> (is_group n \<and> is_leaf n) \<and>
      \<not> (field ''items'' n \<noteq> None \<and> field ''slug'' n \<noteq> None))"
  by (simp add: sidebar_def is_group_def is_leaf_def has_string_def has_array_def)

theorem sidebar_node_shapes_witness:
  "is_leaf (JObject [(''label'', JString ''SEO & Marketing''), (''slug'', JString ''guides/seo'')]) \<and>
   \<not> is_group (JObject [(''label'', JString ''SEO & Marketing''), (''slug'', JString ''guides/seo'')]) \<and>
   field ''items'' (JObject [(''label'', JString ''SEO & Marketing''), (''slug'', JString ''guides/seo'')]) = None"
proof -
  let ?n = "JObject [(''label'', JString ''SEO & Marketing''), (''slug'', JString ''guides/seo'')]"
  have "?n \<in> set (nodes sidebar)"
    by (simp add: sidebar_def)
  with sidebar_node_shapes
  have "(is_group ?n \<or> is_leaf ?n) \<and> \<not> (is_group ?n \<and> is_leaf ?n) \<and>
        \<not> (field ''items'' ?n \<noteq> None \<and> field ''slug'' ?n \<noteq> None)"
    by blast
  moreover have "field ''slug'' ?n \<noteq> None" "\<not> is_group ?n"
    by (simp_all add: is_group_def)
  ultimately show ?thesis by blast
qed

text \<open>
  C8. The tree is exactly two levels deep. Every top-level entry is a group with a
  non-empty \<^verbatim>\<open>items\<close> and no \<^verbatim>\<open>slug\<close>; every member of a group is a leaf with no
  \<^verbatim>\<open>items\<close>; and the nodes of the tree are these groups, each followed by its
  members, and nothing else.
\<close>

theorem sidebar_two_levels:
  "elements sidebar \<noteq> [] \<and>
   (\<forall>g \<in> set (elements sidebar).
      is_group g \<and> \<not> is_leaf g \<and> children g \<noteq> [] \<and> field ''slug'' g = None \<and>
      (\<forall>c \<in> set (children g). is_leaf c \<and> \<not> is_group c \<and> field ''items'' c = None)) \<and>
   nodes sidebar = concat (map (\<lambda>g. g # children g) (elements sidebar))"
  by (simp add: sidebar_def is_group_def is_leaf_def has_string_def has_array_def children_def)

theorem sidebar_two_levels_witness:
  "is_group (JObject [(''label'', JString ''Reference''),
       (''items'', JArray [
          JObject [(''label'', JString ''Components''), (''slug'', JString ''reference/components'')],
          JObject [(''label'', JString ''API Reference''), (''slug'', JString ''reference/api'')]])]) \<and>
   is_leaf (JObject [(''label'', JString ''API Reference''), (''slug'', JString ''reference/api'')])"
proof -
  let ?c = "JObject [(''label'', JString ''API Reference''), (''slug'', JString ''reference/api'')]"
  let ?g = "JObject [(''label'', JString ''Reference''),
       (''items'', JArray [
          JObject [(''label'', JString ''Components''), (''slug'', JString ''reference/components'')],
          ?c])]"
  have g: "?g \<in> set (elements sidebar)"
    by (simp add: sidebar_def)
  have c: "?c \<in> set (children ?g)"
    by (simp add: children_def)
  from sidebar_two_levels g
  have "is_group ?g \<and> (\<forall>c \<in> set (children ?g). is_leaf c \<and> \<not> is_group c \<and> field ''items'' c = None)"
    by blast
  with c show ?thesis by blast
qed

subsection \<open>Distinct names\<close>

text \<open>
  C9. The sidebar has twelve leaves and four groups; the twelve slugs are pairwise
  distinct, so are the twelve leaf labels, and so are the four group labels.
\<close>

theorem sidebar_names_distinct:
  "length (leaf_slugs sidebar) = 12 \<and> distinct (leaf_slugs sidebar) \<and>
   length (leaf_labels sidebar) = 12 \<and> distinct (leaf_labels sidebar) \<and>
   length (group_labels sidebar) = 4 \<and> distinct (group_labels sidebar)"
  unfolding leaf_slugs_sidebar leaf_labels_sidebar group_labels_sidebar by simp

subsection \<open>Round trip\<close>

lemma sequence_map_Some: "sequence (map Some ys) = Some ys"
  by (induction ys) simp_all

lemma sequence_SomeD: "sequence xs = Some ys \<Longrightarrow> xs = map Some ys"
  by (induction xs arbitrary: ys rule: sequence.induct) (auto split: option.splits)

text \<open>Decoding loses nothing: encoding a decoded entry gives the entry back.\<close>

lemma encode_decode_entry: "encode_entry (decode_entry t) = Some t"
proof (induction t)
  case (Group l ts)
  then have m: "map (\<lambda>x. encode_entry (decode_entry x)) ts = map Some ts"
    by (intro map_cong) simp_all
  show ?case by (simp add: m sequence_map_Some comp_def)
next
  case (Link l s)
  show ?case by simp
qed

text \<open>Encoding loses nothing: whatever literal it accepts, decoding writes back.\<close>

lemma decode_encode_entry: "encode_entry v = Some t \<Longrightarrow> decode_entry t = v"
proof (induction v arbitrary: t rule: encode_entry.induct)
  case (1 k1 l k2 cs)
  from "1.prems" have k: "k1 = ''label''" "k2 = ''items''"
    by (auto split: if_splits)
  with "1.prems" obtain ts where ts: "sequence (map encode_entry cs) = Some ts" "t = Group l ts"
    by (auto split: option.splits)
  from ts(1) have m: "map encode_entry cs = map Some ts"
    by (rule sequence_SomeD)
  have "map decode_entry ts = cs"
  proof (rule nth_equalityI)
    show "length (map decode_entry ts) = length cs"
      using m by (metis length_map)
  next
    fix i assume "i < length (map decode_entry ts)"
    then have i: "i < length cs" "i < length ts"
      using m by (auto dest: arg_cong[where f = length])
    then have "encode_entry (cs ! i) = Some (ts ! i)"
      using m by (metis nth_map)
    with "1.IH" k i show "map decode_entry ts ! i = cs ! i"
      by simp
  qed
  with k ts show ?case by simp
qed (auto split: if_splits)

lemma decode_encode_sidebar: "encode_sidebar v = Some ts \<Longrightarrow> decode_sidebar ts = v"
proof (cases v)
  case (JArray vs)
  assume "encode_sidebar v = Some ts"
  with JArray have m: "map encode_entry vs = map Some ts"
    by (simp add: sequence_SomeD)
  have "map decode_entry ts = vs"
  proof (rule nth_equalityI)
    show "length (map decode_entry ts) = length vs"
      using m by (metis length_map)
  next
    fix i assume "i < length (map decode_entry ts)"
    then have i: "i < length vs" "i < length ts"
      using m by (auto dest: arg_cong[where f = length])
    then have "encode_entry (vs ! i) = Some (ts ! i)"
      using m by (metis nth_map)
    with i show "map decode_entry ts ! i = vs ! i"
      by (simp add: decode_encode_entry)
  qed
  with JArray show ?thesis by (simp add: decode_sidebar_def)
qed simp_all

text \<open>
  C5. The sidebar declaration encodes into a nested ordered sequence of records, and
  decoding that sequence gives the declaration back, literal for literal: no label, slug,
  grouping or position is lost.
\<close>

theorem sidebar_round_trip:
  "\<exists>ts. encode_sidebar sidebar = Some ts \<and> decode_sidebar ts = sidebar"
  by (simp add: sidebar_def decode_sidebar_def)

section \<open>Properties of the content files\<close>

subsection \<open>Paths and routes\<close>

lemma strip_prefix_iff: "strip_prefix xs ys = Some zs \<longleftrightarrow> ys = xs @ zs"
  by (induction xs ys rule: strip_prefix.induct) auto

lemma strip_suffix_iff: "strip_suffix suf s = Some r \<longleftrightarrow> s = r @ suf"
proof -
  have "strip_suffix suf s = Some r \<longleftrightarrow> strip_prefix (rev suf) (rev s) = Some (rev r)"
    by (auto simp: strip_suffix_def)
  also have "\<dots> \<longleftrightarrow> rev s = rev suf @ rev r"
    by (simp add: strip_prefix_iff)
  also have "\<dots> \<longleftrightarrow> s = r @ suf"
    by (metis rev_append rev_rev_ident)
  finally show ?thesis .
qed

lemma strip_extension_iff:
  "strip_extension p = Some r \<longleftrightarrow> p = r @ ''.md'' \<or> p = r @ ''.mdx''"
proof (cases "strip_suffix ''.mdx'' p")
  case None
  then have "\<And>r. p \<noteq> r @ ''.mdx''"
    by (metis strip_suffix_iff option.distinct(1))
  with None show ?thesis
    by (simp add: strip_extension_def strip_suffix_iff)
next
  case (Some q)
  then have p: "p = q @ ''.mdx''"
    by (simp add: strip_suffix_iff)
  have "\<And>r. p \<noteq> r @ ''.md''"
  proof
    fix r assume "p = r @ ''.md''"
    with p have "last (q @ ''.mdx'') = last (r @ ''.md'')" by simp
    then show False by simp
  qed
  with Some p show ?thesis
    by (auto simp add: strip_extension_def)
qed

text \<open>The route of a path is what stands between the content directory and the extension.\<close>

lemma route_iff:
  "route p = Some r \<longleftrightarrow> p = content_root @ r @ ''.md'' \<or> p = content_root @ r @ ''.mdx''"
proof (cases "strip_prefix content_root p")
  case None
  then have "\<And>zs. p \<noteq> content_root @ zs"
    by (metis strip_prefix_iff option.distinct(1))
  with None show ?thesis by (simp add: route_def)
next
  case (Some rel)
  then have "p = content_root @ rel" by (simp add: strip_prefix_iff)
  with Some show ?thesis by (simp add: route_def strip_extension_iff)
qed

subsection \<open>What the sources name\<close>

text \<open>The routes of the eight content files, in the order of \<open>named_docs\<close>.\<close>

lemma named_routes:
  "map (\<lambda>d. route (path d)) named_docs =
     [Some ''guides/getting-started'', Some ''guides/ship-in-5-minutes'',
      Some ''guides/authentication'', Some ''guides/emails'', Some ''guides/deployment'',
      Some ''guides/customer-support'', Some ''guides/dark-mode'', Some ''reference/api'']"
  by (simp add: named_docs_def route_def content_root_def strip_extension_def strip_suffix_def)

text \<open>
  Seven slugs of the sidebar are routes of these files. The other five are not: the
  sources name no file for them. They are the routes of the five paths that the drawing of
  \<^verbatim>\<open>README.md\<close> has beyond the named files, and the labels of their leaves are
  titles of unnamed texts; whether those texts lie at those paths the sources do not say.
\<close>

lemma slugs_of_named_files:
  "filter (\<lambda>s. Some s \<in> set (map (\<lambda>d. route (path d)) named_docs)) (leaf_slugs sidebar) =
     [''guides/getting-started'', ''guides/ship-in-5-minutes'', ''guides/authentication'',
      ''guides/emails'', ''guides/deployment'', ''guides/customer-support'', ''reference/api'']"
  unfolding named_routes leaf_slugs_sidebar by simp

lemma slugs_of_no_named_file:
  "filter (\<lambda>s. Some s \<notin> set (map (\<lambda>d. route (path d)) named_docs)) (leaf_slugs sidebar) =
     [''guides/database'', ''guides/payments'', ''guides/seo'', ''guides/error-handling'',
      ''reference/components'']"
  unfolding named_routes leaf_slugs_sidebar by simp

lemma readme_paths_of_no_named_file:
  "map route (filter (\<lambda>p. p \<notin> set (map path named_docs)) readme_structure) =
     [Some ''guides/database'', Some ''guides/payments'', Some ''guides/error-handling'',
      Some ''guides/seo'', Some ''reference/components'']"
  by (simp add: readme_structure_def named_docs_def route_def content_root_def
      strip_extension_def strip_suffix_def)

lemma named_paths_not_in_readme:
  "filter (\<lambda>p. p \<notin> set readme_structure) (map path named_docs) =
     [''src/content/docs/guides/dark-mode.md'']"
  by (simp add: readme_structure_def named_docs_def)

lemma unnamed_titles:
  "map (\<lambda>fm. map_of fm ''title'') unnamed_front_matter =
     [Some ''Database'', Some ''Payments'', Some ''User Authentication'',
      Some ''SEO & Marketing'', Some ''Error Handling'', Some ''Components'']"
  by (simp add: unnamed_front_matter_def)

subsection \<open>Front-matter\<close>

text \<open>
  C2. Every content document has a \<^verbatim>\<open>title\<close> and a \<^verbatim>\<open>description\<close> in its
  front-matter, each with a non-empty value: the eight content files, and the six texts
  without a file name.
\<close>

theorem front_matter_nonempty:
  "length named_docs = 8 \<and> length unnamed_front_matter = 6 \<and>
   (\<forall>d \<in> set named_docs.
      nonempty_value ''title'' (front_matter d) \<and>
      nonempty_value ''description'' (front_matter d)) \<and>
   (\<forall>fm \<in> set unnamed_front_matter.
      nonempty_value ''title'' fm \<and> nonempty_value ''description'' fm)"
  by (simp add: named_docs_def unnamed_front_matter_def nonempty_value_def)

theorem front_matter_nonempty_witness:
  "nonempty_value ''title''
     [(''title'', ''API Reference''), (''description'', ''API endpoints and utilities for LaunchKit.'')] \<and>
   nonempty_value ''description''
     [(''title'', ''API Reference''), (''description'', ''API endpoints and utilities for LaunchKit.'')] \<and>
   nonempty_value ''title''
     [(''title'', ''Payments''), (''description'', ''Set up Stripe payments and subscriptions in LaunchKit.'')]"
proof -
  let ?d = "\<lparr>path = ''src/content/docs/reference/api.md'',
      front_matter = [(''title'', ''API Reference''),
        (''description'', ''API endpoints and utilities for LaunchKit.'')]\<rparr>"
  let ?fm = "[(''title'', ''Payments''),
      (''description'', ''Set up Stripe payments and subscriptions in LaunchKit.'')]"
  have d: "?d \<in> set named_docs"
    by (simp add: named_docs_def)
  have fm: "?fm \<in> set unnamed_front_matter"
    by (simp add: unnamed_front_matter_def)
  from front_matter_nonempty d
  have "nonempty_value ''title'' (front_matter ?d) \<and> nonempty_value ''description'' (front_matter ?d)"
    by blast
  moreover from front_matter_nonempty fm have "nonempty_value ''title'' ?fm"
    by blast
  ultimately show ?thesis by simp
qed

subsection \<open>Format and route\<close>



subsection \<open>Coverage\<close>

text \<open>
  C10. The navigation does not cover the content tree: the dark mode guide is a content
  file with a non-empty title and description, its route is \<^verbatim>\<open>guides/dark-mode\<close>,
  and no leaf of the sidebar has that slug.
\<close>

theorem dark_mode_not_in_sidebar:
  "(\<exists>d \<in> set named_docs.
      path d = ''src/content/docs/guides/dark-mode.md'' \<and>
      route (path d) = Some ''guides/dark-mode'' \<and>
      nonempty_value ''title'' (front_matter d) \<and>
      nonempty_value ''description'' (front_matter d)) \<and>
   ''guides/dark-mode'' \<notin> set (leaf_slugs sidebar)"
  unfolding leaf_slugs_sidebar
  by (simp add: named_docs_def route_def content_root_def strip_extension_def
      strip_suffix_def nonempty_value_def)

end
